theory Spec2Isabelle
  imports Complex_Main "HOL-Library.Multiset" "HOL-Library.Char_ord"
    "HOL-Library.List_Lexorder" "HOL-Library.Product_Lexorder"
begin

section \<open>The climate\_data table and the connection\<close>

text \<open>
  One row of \<^verbatim>\<open>climate_data\<close>. The columns are those of the
  \<^verbatim>\<open>CREATE TABLE\<close> statement of \<^verbatim>\<open>create_and_populate_db\<close>. All four data
  columns are declared \<^verbatim>\<open>NOT NULL\<close>, so a stored row holds a value in each of them.
  The two \<^verbatim>\<open>FLOAT\<close> columns are modelled by exact reals: every statement below is
  about the exact value of the decimal literals, not about binary rounding.
\<close>

record row =
  rid :: nat
  city :: string
  reading_date :: string
  temperature :: real
  humidity :: real

datatype error = ProgrammingError | OperationalError | IntegrityError | EngineError

text \<open>
  A \<^verbatim>\<open>sqlite3\<close> connection to a \<^verbatim>\<open>:memory:\<close> database, as far as this script uses it:
  the table (absent until created), the \<^verbatim>\<open>AUTOINCREMENT\<close> counter kept in
  \<^verbatim>\<open>sqlite_sequence\<close>, whether a transaction is pending and whether the connection
  is still open.
\<close>

record connection =
  tbl :: "row list option"
  autoinc :: nat
  in_transaction :: bool
  is_open :: bool

definition connect :: connection where
  "connect = \<lparr>tbl = None, autoinc = 0, in_transaction = False, is_open = True\<rparr>"

text \<open>
  A parameter tuple bound to the four placeholders of the \<^verbatim>\<open>INSERT\<close>; \<open>None\<close> is
  Python's \<^verbatim>\<open>None\<close>, bound as SQL \<^verbatim>\<open>NULL\<close>.
\<close>

type_synonym params = "string option \<times> string option \<times> real option \<times> real option"

definition records :: "params list" where
  "records =
    [(Some ''New York'',  Some ''2025-01-01'', Some (-5.2), Some 35.0),
     (Some ''New York'',  Some ''2025-01-02'', Some (-2.1), Some 40.0),
     (Some ''New York'',  Some ''2025-01-03'', Some 0.5,    Some 42.0),
     (Some ''Chicago'',   Some ''2025-01-01'', Some (-7.0), Some 50.0),
     (Some ''Chicago'',   Some ''2025-01-02'', Some (-5.5), Some 55.0),
     (Some ''Chicago'',   Some ''2025-01-03'', Some (-3.2), Some 48.0),
     (Some ''Houston'',   Some ''2025-01-01'', Some 10.2,   Some 70.0),
     (Some ''Houston'',   Some ''2025-01-02'', Some 12.1,   Some 68.0),
     (Some ''Houston'',   Some ''2025-01-03'', Some 15.0,   Some 65.0),
     (Some ''San Diego'', Some ''2025-01-01'', Some 15.2,   Some 55.0),
     (Some ''San Diego'', Some ''2025-01-02'', Some 16.5,   Some 52.0),
     (Some ''San Diego'', Some ''2025-01-03'', Some 18.0,   Some 50.0)]"

text \<open>
  Every operation on the connection returns the exception it raised, if any, together
  with the connection as the operation left it.
\<close>

type_synonym 'a outcome = "error option \<times> 'a"

definition and_then :: "'a outcome \<Rightarrow> ('a \<Rightarrow> 'a outcome) \<Rightarrow> 'a outcome" where
  "and_then r f = (case r of (None, s) \<Rightarrow> f s | (Some e, s) \<Rightarrow> (Some e, s))"

text \<open>\<^verbatim>\<open>CREATE TABLE IF NOT EXISTS\<close>: an existing table is left as it is.\<close>

definition execute_create :: "connection \<Rightarrow> connection outcome" where
  "execute_create c =
     (if \<not> is_open c then (Some ProgrammingError, c)
      else case tbl c of
             None \<Rightarrow> (None, c\<lparr>tbl := Some []\<rparr>)
           | Some rs \<Rightarrow> (None, c))"

text \<open>
  One \<^verbatim>\<open>INSERT\<close>: the row gets the next \<^verbatim>\<open>AUTOINCREMENT\<close> id and is appended. A
  \<^verbatim>\<open>NULL\<close> in a \<^verbatim>\<open>NOT NULL\<close> column is refused.
\<close>

fun insert_row :: "connection \<Rightarrow> params \<Rightarrow> connection outcome" where
  "insert_row c (Some ct, Some d, Some t, Some h) =
     (if \<not> is_open c then (Some ProgrammingError, c)
      else case tbl c of
             None \<Rightarrow> (Some OperationalError, c)
           | Some rs \<Rightarrow>
               (None, c\<lparr>tbl := Some (rs @ [\<lparr>rid = Suc (autoinc c), city = ct, reading_date = d,
                                           temperature = t, humidity = h\<rparr>]),
                       autoinc := Suc (autoinc c),
                       in_transaction := True\<rparr>))"
| "insert_row c p =
     (if \<not> is_open c then (Some ProgrammingError, c)
      else case tbl c of
             None \<Rightarrow> (Some OperationalError, c)
           | Some rs \<Rightarrow> (Some IntegrityError, c))"

fun executemany :: "connection \<Rightarrow> params list \<Rightarrow> connection outcome" where
  "executemany c [] = (if \<not> is_open c then (Some ProgrammingError, c) else (None, c))"
| "executemany c (p # ps) = and_then (insert_row c p) (\<lambda>c'. executemany c' ps)"

definition commit :: "connection \<Rightarrow> connection outcome" where
  "commit c = (if \<not> is_open c then (Some ProgrammingError, c)
               else (None, c\<lparr>in_transaction := False\<rparr>))"

text \<open>
  Closing a \<^verbatim>\<open>:memory:\<close> connection discards the database. Closing twice is allowed.
\<close>

definition close :: "connection \<Rightarrow> connection outcome" where
  "close c = (None, c\<lparr>tbl := None, in_transaction := False, is_open := False\<rparr>)"

definition create_and_populate_db :: "connection \<Rightarrow> connection outcome" where
  "create_and_populate_db c =
     and_then (and_then (execute_create c) (\<lambda>c1. executemany c1 records)) commit"

text \<open>The table the script works on: the rows after the loader ran on a fresh connection.\<close>

definition climate_data :: "row list" where
  "climate_data =
     (case tbl (snd (create_and_populate_db connect)) of Some rs \<Rightarrow> rs | None \<Rightarrow> [])"

section \<open>The aggregation query\<close>

record avg_row =
  avg_city :: string
  avg_temp :: real
  avg_humidity :: real

text \<open>\<^verbatim>\<open>AVG\<close> over the rows of one group; a group of \<^verbatim>\<open>GROUP BY\<close> is never empty.\<close>

definition AVG :: "real list \<Rightarrow> real" where
  "AVG xs = sum_list xs / real (length xs)"

definition group_by_city :: "row list \<Rightarrow> (string \<times> row list) list" where
  "group_by_city rs =
     map (\<lambda>c. (c, filter (\<lambda>r. city r = c) rs)) (sort (remdups (map city rs)))"

text \<open>
  \<^verbatim>\<open>SELECT city, AVG(temperature), AVG(humidity) ... GROUP BY city ORDER BY avg_temp DESC\<close>.
  The descending sort is a stable sort on the negated key; SQL leaves the order of tied
  rows open.
\<close>

definition query_avg :: "row list \<Rightarrow> avg_row list" where
  "query_avg rs =
     sort_key (\<lambda>a. - avg_temp a)
       (map (\<lambda>(c, g). \<lparr>avg_city = c, avg_temp = AVG (map temperature g),
                         avg_humidity = AVG (map humidity g)\<rparr>)
            (group_by_city rs))"

section \<open>The ranking query and the CTE\<close>

record rank_row =
  rk_city :: string
  rk_date :: string
  rk_temperature :: real
  temp_rank :: nat

text \<open>
  \<^verbatim>\<open>RANK()\<close> over one partition already sorted by the \<^verbatim>\<open>ORDER BY\<close> of the window: the
  engine counts the rows it steps over (\<open>n\<close>) and gives a row the number of the first
  row of its peer group, the rows with the same temperature (\<open>rk\<close>, with \<open>prev\<close> the
  temperature of the row before).
\<close>

fun rank_peers :: "nat \<Rightarrow> nat \<Rightarrow> real option \<Rightarrow> row list \<Rightarrow> (row \<times> nat) list" where
  "rank_peers n rk prev [] = []"
| "rank_peers n rk prev (r # rs) =
     (let rk' = (if prev = Some (temperature r) then rk else n)
      in (r, rk') # rank_peers (Suc n) rk' (Some (temperature r)) rs)"

definition partition_by_date :: "row list \<Rightarrow> row list list" where
  "partition_by_date rs =
     map (\<lambda>d. filter (\<lambda>r. reading_date r = d) rs) (sort (remdups (map reading_date rs)))"

definition rank_partition :: "row list \<Rightarrow> (row \<times> nat) list" where
  "rank_partition p = rank_peers 1 0 None (sort_key (\<lambda>r. - temperature r) p)"

definition select_rank :: "row \<times> nat \<Rightarrow> rank_row" where
  "select_rank x = \<lparr>rk_city = city (fst x), rk_date = reading_date (fst x),
                     rk_temperature = temperature (fst x), temp_rank = snd x\<rparr>"

text \<open>
  The \<^verbatim>\<open>SELECT city, reading_date, temperature, RANK() OVER (PARTITION BY reading_date
  ORDER BY temperature DESC) AS temp_rank FROM climate_data\<close> that both queries of
  \<^verbatim>\<open>run_advanced_analytics\<close> contain.
\<close>

definition ranked_temps :: "row list \<Rightarrow> rank_row list" where
  "ranked_temps rs = concat (map (\<lambda>p. map select_rank (rank_partition p)) (partition_by_date rs))"

text \<open>\<^verbatim>\<open>query_window\<close>: the ranking, \<^verbatim>\<open>ORDER BY reading_date, temp_rank\<close>.\<close>

definition query_window :: "row list \<Rightarrow> rank_row list" where
  "query_window rs = sort_key (\<lambda>x. (rk_date x, temp_rank x)) (ranked_temps rs)"

text \<open>
  \<^verbatim>\<open>query_cte\<close>: \<^verbatim>\<open>WITH ranked_temps AS (...) SELECT * FROM ranked_temps WHERE
  temp_rank = 1 ORDER BY reading_date\<close>.
\<close>

definition query_cte :: "row list \<Rightarrow> rank_row list" where
  "query_cte rs = sort_key rk_date (filter (\<lambda>x. temp_rank x = 1) (ranked_temps rs))"

text \<open>
  The contract of the top-per-partition filter in the words of the specification: take
  the ranking report, keep the rows of rank 1, order them by date.
\<close>

definition cte_spec :: "row list \<Rightarrow> rank_row list" where
  "cte_spec rs = sort_key rk_date (filter (\<lambda>x. temp_rank x = 1) (query_window rs))"

text \<open>
  The rank in the words of the specification: one plus the number of records of the same
  date with a strictly greater temperature.
\<close>

definition rank_spec :: "row list \<Rightarrow> row \<Rightarrow> nat" where
  "rank_spec rs r =
     Suc (length (filter (\<lambda>r'. reading_date r' = reading_date r \<and> temperature r < temperature r') rs))"

section \<open>The correlation matrix\<close>

text \<open>
  \<^verbatim>\<open>DataFrame.corr()\<close> with its defaults (Pearson, \<^verbatim>\<open>min_periods = 1\<close>) runs one pass
  of Welford's update over the paired observations and divides the co-moment by the
  square root of the product of the two sums of squared deviations. The state of the
  pass is (nobs, meanx, meany, ssqdmx, ssqdmy, covxy). \<open>None\<close> stands for NaN.
\<close>

type_synonym welford = "nat \<times> real \<times> real \<times> real \<times> real \<times> real"

fun welford_step :: "welford \<Rightarrow> real \<times> real \<Rightarrow> welford" where
  "welford_step (nobs, meanx, meany, ssqdmx, ssqdmy, covxy) (vx, vy) =
     (let nobs' = Suc nobs;
          dx = vx - meanx;
          dy = vy - meany;
          meanx' = meanx + 1 / real nobs' * dx;
          meany' = meany + 1 / real nobs' * dy
      in (nobs', meanx', meany',
          ssqdmx + (vx - meanx') * dx,
          ssqdmy + (vy - meany') * dy,
          covxy + (vx - meanx') * dy))"

definition welford_pass :: "(real \<times> real) list \<Rightarrow> welford" where
  "welford_pass xys = foldl welford_step (0, 0, 0, 0, 0, 0) xys"

definition nancorr :: "real list \<Rightarrow> real list \<Rightarrow> real option" where
  "nancorr xs ys =
     (case welford_pass (zip xs ys) of
        (nobs, meanx, meany, ssqdmx, ssqdmy, covxy) \<Rightarrow>
          if nobs < 1 then None
          else let divisor = sqrt (ssqdmx * ssqdmy)
               in if divisor \<noteq> 0 then Some (covxy / divisor) else None)"

text \<open>
  The matrix over the columns temperature (t) and humidity (h). The library computes
  the entries on and below the diagonal and writes each one to both positions.
\<close>

record corr_matrix =
  corr_tt :: "real option"
  corr_th :: "real option"
  corr_ht :: "real option"
  corr_hh :: "real option"

definition corr :: "row list \<Rightarrow> corr_matrix" where
  "corr rs =
     (let ts = map temperature rs; hs = map humidity rs;
          ht = nancorr hs ts
      in \<lparr>corr_tt = nancorr ts ts, corr_th = ht, corr_ht = ht, corr_hh = nancorr hs hs\<rparr>)"

text \<open>
  The standard definition of Pearson's coefficient: the sample covariance divided by the
  product of the sample standard deviations.
\<close>

definition mean :: "real list \<Rightarrow> real" where
  "mean xs = sum_list xs / real (length xs)"

definition sample_cov :: "real list \<Rightarrow> real list \<Rightarrow> real" where
  "sample_cov xs ys =
     sum_list (map (\<lambda>(x, y). (x - mean xs) * (y - mean ys)) (zip xs ys)) / real (length xs - 1)"

definition sample_sd :: "real list \<Rightarrow> real" where
  "sample_sd xs = sqrt (sample_cov xs xs)"

definition pearson :: "real list \<Rightarrow> real list \<Rightarrow> real" where
  "pearson xs ys = sample_cov xs ys / (sample_sd xs * sample_sd ys)"

section \<open>Reading frames and printing\<close>

text \<open>
  \<^verbatim>\<open>pd.read_sql_query\<close> runs a \<^verbatim>\<open>SELECT\<close> on the connection: it fails on a closed
  connection and on a missing table, and it returns the frame otherwise. It has no
  effect on the connection.
\<close>

definition read_sql_query :: "(row list \<Rightarrow> 'a) \<Rightarrow> connection \<Rightarrow> error + 'a" where
  "read_sql_query q c =
     (if \<not> is_open c then Inl ProgrammingError
      else case tbl c of
             None \<Rightarrow> Inl OperationalError
           | Some rs \<Rightarrow> Inr (q rs))"

text \<open>\<^verbatim>\<open>SELECT * FROM climate_data\<close>.\<close>

definition query_all :: "row list \<Rightarrow> row list" where
  "query_all rs = rs"

text \<open>\<^verbatim>\<open>DataFrame.head()\<close>: the first five rows.\<close>

definition head :: "row list \<Rightarrow> row list" where
  "head rs = take 5 rs"

datatype frame =
    AvgFrame "avg_row list"
  | RankFrame "rank_row list"
  | TableFrame "row list"
  | CorrFrame corr_matrix

datatype pyobj = Str string | Df frame

text \<open>
  Standard output is the list of the \<^verbatim>\<open>print\<close> calls made so far, each with its
  arguments. A call writes its arguments separated by a space and then a newline, so a
  call whose last argument is the string of one newline leaves an empty line behind it.
\<close>

type_synonym print_call = "pyobj list"

record world =
  conn :: connection
  stdout :: "print_call list"

definition py_print :: "print_call \<Rightarrow> world \<Rightarrow> world" where
  "py_print args w = w\<lparr>stdout := stdout w @ [args]\<rparr>"

definition newline :: string where
  "newline = [CHR 0x0A]"

definition is_header :: "print_call \<Rightarrow> bool" where
  "is_header p = (case p of [Str s] \<Rightarrow> take 4 s = ''=== '' | _ \<Rightarrow> False)"

definition is_section_body :: "print_call \<Rightarrow> bool" where
  "is_section_body p = (case p of Df f # rest \<Rightarrow> True | _ \<Rightarrow> False)"

definition blank_line_after :: "print_call \<Rightarrow> bool" where
  "blank_line_after p = (p \<noteq> [] \<and> last p = Str newline)"

section \<open>The three functions of the script and main\<close>

definition run_basic_analytics :: "world \<Rightarrow> world outcome" where
  "run_basic_analytics w =
     (case read_sql_query query_avg (conn w) of
        Inl e \<Rightarrow> (Some e, w)
      | Inr df_avg \<Rightarrow>
          (None, py_print [Df (AvgFrame df_avg), Str newline]
                   (py_print [Str ''=== Average Temperature & Humidity by City ===''] w)))"

definition run_advanced_analytics :: "world \<Rightarrow> world outcome" where
  "run_advanced_analytics w =
     (case read_sql_query query_window (conn w) of
        Inl e \<Rightarrow> (Some e, w)
      | Inr df_window \<Rightarrow>
          (let w1 = py_print [Df (RankFrame df_window), Str newline]
                      (py_print [Str ''=== Window Function: Temperature Rank per Date ===''] w)
           in case read_sql_query query_cte (conn w1) of
                Inl e \<Rightarrow> (Some e, w1)
              | Inr df_cte \<Rightarrow>
                  (None, py_print [Df (RankFrame df_cte), Str newline]
                           (py_print [Str ''=== CTE: Hottest City per Date ===''] w1))))"

text \<open>Step 2 of \<^verbatim>\<open>main\<close>: the loader, on the connection of the run.\<close>

definition populate :: "world \<Rightarrow> world outcome" where
  "populate w = (case create_and_populate_db (conn w) of (r, c) \<Rightarrow> (r, w\<lparr>conn := c\<rparr>))"

text \<open>
  Step 5 of \<^verbatim>\<open>main\<close>: the full-table read, the print of \<^verbatim>\<open>df_all.head()\<close>, the
  correlation matrix and its print.
\<close>

definition pandas_steps :: "world \<Rightarrow> world outcome" where
  "pandas_steps w =
     (case read_sql_query query_all (conn w) of
        Inl e \<Rightarrow> (Some e, w)
      | Inr df_all \<Rightarrow>
          (None, py_print [Df (CorrFrame (corr df_all))]
                   (py_print [Str ''=== Correlation Matrix between Temperature & Humidity ==='']
                     (py_print [Df (TableFrame (head df_all)), Str newline]
                       (py_print [Str ''=== Full climate_data Table in Pandas ==='' ] w)))))"

definition close_conn :: "world \<Rightarrow> world outcome" where
  "close_conn w = (case close (conn w) of (r, c) \<Rightarrow> (r, w\<lparr>conn := c\<rparr>))"

text \<open>
  The statements of \<^verbatim>\<open>main\<close> that call into the database engine or the table library.
  Any of them may raise for a reason outside the script (the specification names
  resource exhaustion); \<open>env\<close> says which ones do in a given run, and with what.
\<close>

datatype step = Populate | Basic | Advanced | Pandas | Close

definition call :: "(step \<Rightarrow> error option) \<Rightarrow> step \<Rightarrow> (world \<Rightarrow> world outcome) \<Rightarrow> world \<Rightarrow> world outcome" where
  "call env s f w = (case env s of Some e \<Rightarrow> (Some e, w) | None \<Rightarrow> f w)"

text \<open>
  \<^verbatim>\<open>main\<close> is a plain sequence with no \<^verbatim>\<open>try\<close> and no \<^verbatim>\<open>with\<close>: an exception leaves it
  at the statement that raised.
\<close>

definition main_in :: "(step \<Rightarrow> error option) \<Rightarrow> world outcome" where
  "main_in env =
     and_then (and_then (and_then (and_then
       (call env Populate populate \<lparr>conn = connect, stdout = []\<rparr>)
       (call env Basic run_basic_analytics))
       (call env Advanced run_advanced_analytics))
       (call env Pandas pandas_steps))
       (call env Close close_conn)"

definition no_fault :: "step \<Rightarrow> error option" where
  "no_fault s = None"

definition fault_at :: "step \<Rightarrow> error \<Rightarrow> step \<Rightarrow> error option" where
  "fault_at s e s' = (if s' = s then Some e else None)"

text \<open>The run of the script: nothing outside it fails.\<close>

definition main :: "world outcome" where
  "main = main_in no_fault"

section \<open>Notions used to state the properties\<close>

text \<open>The mean of a column over the three records of a city in the loaded table.\<close>

definition city_mean :: "(row \<Rightarrow> real) \<Rightarrow> string \<Rightarrow> real" where
  "city_mean col c = sum_list (map col (filter (\<lambda>r. city r = c) climate_data)) / 3"

text \<open>The number of rows of a partition that are strictly hotter than a given row.\<close>

definition hotter_in :: "row list \<Rightarrow> row \<Rightarrow> nat" where
  "hotter_in p r = length (filter (\<lambda>x. temperature r < temperature x) p)"

text \<open>The row of the ranking report that the specification prescribes for a record.\<close>

definition ranked_row :: "row list \<Rightarrow> row \<Rightarrow> rank_row" where
  "ranked_row rs r = \<lparr>rk_city = city r, rk_date = reading_date r,
                       rk_temperature = temperature r, temp_rank = rank_spec rs r\<rparr>"

text \<open>The twelve literal records as rows inserted when the counter stands at \<open>n\<close>.\<close>

definition new_rows :: "nat \<Rightarrow> row list" where
  "new_rows n = map (\<lambda>r. r\<lparr>rid := n + rid r\<rparr>) climate_data"

text \<open>The two numeric columns of the loaded table.\<close>

definition temps :: "real list" where
  "temps = map temperature climate_data"

definition hums :: "real list" where
  "hums = map humidity climate_data"

section \<open>The loader on a fresh connection\<close>

lemma populate_fresh:
  "create_and_populate_db connect =
     (None, \<lparr>tbl = Some
       [\<lparr>rid = 1, city = ''New York'', reading_date = ''2025-01-01'', temperature = -5.2, humidity = 35.0\<rparr>,
        \<lparr>rid = 2, city = ''New York'', reading_date = ''2025-01-02'', temperature = -2.1, humidity = 40.0\<rparr>,
        \<lparr>rid = 3, city = ''New York'', reading_date = ''2025-01-03'', temperature = 0.5, humidity = 42.0\<rparr>,
        \<lparr>rid = 4, city = ''Chicago'', reading_date = ''2025-01-01'', temperature = -7.0, humidity = 50.0\<rparr>,
        \<lparr>rid = 5, city = ''Chicago'', reading_date = ''2025-01-02'', temperature = -5.5, humidity = 55.0\<rparr>,
        \<lparr>rid = 6, city = ''Chicago'', reading_date = ''2025-01-03'', temperature = -3.2, humidity = 48.0\<rparr>,
        \<lparr>rid = 7, city = ''Houston'', reading_date = ''2025-01-01'', temperature = 10.2, humidity = 70.0\<rparr>,
        \<lparr>rid = 8, city = ''Houston'', reading_date = ''2025-01-02'', temperature = 12.1, humidity = 68.0\<rparr>,
        \<lparr>rid = 9, city = ''Houston'', reading_date = ''2025-01-03'', temperature = 15.0, humidity = 65.0\<rparr>,
        \<lparr>rid = 10, city = ''San Diego'', reading_date = ''2025-01-01'', temperature = 15.2, humidity = 55.0\<rparr>,
        \<lparr>rid = 11, city = ''San Diego'', reading_date = ''2025-01-02'', temperature = 16.5, humidity = 52.0\<rparr>,
        \<lparr>rid = 12, city = ''San Diego'', reading_date = ''2025-01-03'', temperature = 18.0, humidity = 50.0\<rparr>],
      autoinc = 12, in_transaction = False, is_open = True\<rparr>)"
  by (simp add: create_and_populate_db_def execute_create_def connect_def records_def commit_def
      and_then_def)

lemma climate_data_rows:
  "climate_data =
     [\<lparr>rid = 1, city = ''New York'', reading_date = ''2025-01-01'', temperature = -5.2, humidity = 35.0\<rparr>,
      \<lparr>rid = 2, city = ''New York'', reading_date = ''2025-01-02'', temperature = -2.1, humidity = 40.0\<rparr>,
      \<lparr>rid = 3, city = ''New York'', reading_date = ''2025-01-03'', temperature = 0.5, humidity = 42.0\<rparr>,
      \<lparr>rid = 4, city = ''Chicago'', reading_date = ''2025-01-01'', temperature = -7.0, humidity = 50.0\<rparr>,
      \<lparr>rid = 5, city = ''Chicago'', reading_date = ''2025-01-02'', temperature = -5.5, humidity = 55.0\<rparr>,
      \<lparr>rid = 6, city = ''Chicago'', reading_date = ''2025-01-03'', temperature = -3.2, humidity = 48.0\<rparr>,
      \<lparr>rid = 7, city = ''Houston'', reading_date = ''2025-01-01'', temperature = 10.2, humidity = 70.0\<rparr>,
      \<lparr>rid = 8, city = ''Houston'', reading_date = ''2025-01-02'', temperature = 12.1, humidity = 68.0\<rparr>,
      \<lparr>rid = 9, city = ''Houston'', reading_date = ''2025-01-03'', temperature = 15.0, humidity = 65.0\<rparr>,
      \<lparr>rid = 10, city = ''San Diego'', reading_date = ''2025-01-01'', temperature = 15.2, humidity = 55.0\<rparr>,
      \<lparr>rid = 11, city = ''San Diego'', reading_date = ''2025-01-02'', temperature = 16.5, humidity = 52.0\<rparr>,
      \<lparr>rid = 12, city = ''San Diego'', reading_date = ''2025-01-03'', temperature = 18.0, humidity = 50.0\<rparr>]"
  by (simp add: climate_data_def populate_fresh)

lemma query_avg_rows:
  "query_avg climate_data =
     [\<lparr>avg_city = ''San Diego'', avg_temp = (15.2 + 16.5 + 18.0) / 3, avg_humidity = (55.0 + 52.0 + 50.0) / 3\<rparr>,
      \<lparr>avg_city = ''Houston'', avg_temp = (10.2 + 12.1 + 15.0) / 3, avg_humidity = (70.0 + 68.0 + 65.0) / 3\<rparr>,
      \<lparr>avg_city = ''New York'', avg_temp = (-5.2 + -2.1 + 0.5) / 3, avg_humidity = (35.0 + 40.0 + 42.0) / 3\<rparr>,
      \<lparr>avg_city = ''Chicago'', avg_temp = (-7.0 + -5.5 + -3.2) / 3, avg_humidity = (50.0 + 55.0 + 48.0) / 3\<rparr>]"
  by (simp add: climate_data_rows query_avg_def group_by_city_def AVG_def)

lemma ranked_temps_rows:
  "ranked_temps climate_data =
     [\<lparr>rk_city = ''San Diego'', rk_date = ''2025-01-01'', rk_temperature = 15.2, temp_rank = 1\<rparr>,
      \<lparr>rk_city = ''Houston'', rk_date = ''2025-01-01'', rk_temperature = 10.2, temp_rank = 2\<rparr>,
      \<lparr>rk_city = ''New York'', rk_date = ''2025-01-01'', rk_temperature = -5.2, temp_rank = 3\<rparr>,
      \<lparr>rk_city = ''Chicago'', rk_date = ''2025-01-01'', rk_temperature = -7.0, temp_rank = 4\<rparr>,
      \<lparr>rk_city = ''San Diego'', rk_date = ''2025-01-02'', rk_temperature = 16.5, temp_rank = 1\<rparr>,
      \<lparr>rk_city = ''Houston'', rk_date = ''2025-01-02'', rk_temperature = 12.1, temp_rank = 2\<rparr>,
      \<lparr>rk_city = ''New York'', rk_date = ''2025-01-02'', rk_temperature = -2.1, temp_rank = 3\<rparr>,
      \<lparr>rk_city = ''Chicago'', rk_date = ''2025-01-02'', rk_temperature = -5.5, temp_rank = 4\<rparr>,
      \<lparr>rk_city = ''San Diego'', rk_date = ''2025-01-03'', rk_temperature = 18.0, temp_rank = 1\<rparr>,
      \<lparr>rk_city = ''Houston'', rk_date = ''2025-01-03'', rk_temperature = 15.0, temp_rank = 2\<rparr>,
      \<lparr>rk_city = ''New York'', rk_date = ''2025-01-03'', rk_temperature = 0.5, temp_rank = 3\<rparr>,
      \<lparr>rk_city = ''Chicago'', rk_date = ''2025-01-03'', rk_temperature = -3.2, temp_rank = 4\<rparr>]"
  by (simp add: climate_data_rows ranked_temps_def partition_by_date_def rank_partition_def
      select_rank_def)

lemma query_window_rows: "query_window climate_data = ranked_temps climate_data"
  by (simp add: query_window_def ranked_temps_rows)

lemma query_cte_rows:
  "query_cte climate_data =
     [\<lparr>rk_city = ''San Diego'', rk_date = ''2025-01-01'', rk_temperature = 15.2, temp_rank = 1\<rparr>,
      \<lparr>rk_city = ''San Diego'', rk_date = ''2025-01-02'', rk_temperature = 16.5, temp_rank = 1\<rparr>,
      \<lparr>rk_city = ''San Diego'', rk_date = ''2025-01-03'', rk_temperature = 18.0, temp_rank = 1\<rparr>]"
  by (simp add: query_cte_def ranked_temps_rows)

lemma populate_conn:
  "create_and_populate_db connect =
     (None, \<lparr>tbl = Some climate_data, autoinc = 12, in_transaction = False, is_open = True\<rparr>)"
  by (simp add: climate_data_rows populate_fresh)

lemma populate_existing:
  "create_and_populate_db \<lparr>tbl = Some rs, autoinc = n, in_transaction = b, is_open = True\<rparr> =
     (None, \<lparr>tbl = Some (rs @ new_rows n), autoinc = n + 12, in_transaction = False,
             is_open = True\<rparr>)"
  by (simp add: new_rows_def climate_data_rows create_and_populate_db_def execute_create_def
      records_def commit_def and_then_def)

section \<open>The aggregation report\<close>

text \<open>
  C3. On the twelve records the aggregation report has exactly four rows, one for each
  city of the table; each city has three records, and its row holds the sum of its three
  temperatures divided by three and the sum of its three humidities divided by three.
  The Houston row holds (10.2 + 12.1 + 15.0) / 3 and (70.0 + 68.0 + 65.0) / 3.
\<close>

theorem aggregation_report_means:
  "length (query_avg climate_data) = 4
   \<and> distinct (map avg_city (query_avg climate_data))
   \<and> set (map avg_city (query_avg climate_data)) = set (map city climate_data)
   \<and> map (\<lambda>a. length (filter (\<lambda>r. city r = avg_city a) climate_data)) (query_avg climate_data)
       = [3, 3, 3, 3]
   \<and> query_avg climate_data
       = map (\<lambda>c. \<lparr>avg_city = c, avg_temp = city_mean temperature c,
                     avg_humidity = city_mean humidity c\<rparr>)
             [''San Diego'', ''Houston'', ''New York'', ''Chicago'']
   \<and> filter (\<lambda>a. avg_city a = ''Houston'') (query_avg climate_data)
       = [\<lparr>avg_city = ''Houston'', avg_temp = (10.2 + 12.1 + 15.0) / 3,
           avg_humidity = (70.0 + 68.0 + 65.0) / 3\<rparr>]"
  by (simp add: query_avg_rows city_mean_def) (auto simp add: climate_data_rows)

text \<open>
  C1, as the specification states it, fails: the report does not list Houston first and
  San Diego second.
\<close>

theorem aggregation_order_counterexample:
  "map avg_city (query_avg climate_data) \<noteq> [''Houston'', ''San Diego'', ''New York'', ''Chicago'']"
  by (simp add: query_avg_rows)

text \<open>
  C1, amended. On the twelve records the rows of the aggregation report are strictly
  ordered by descending mean temperature, and that order is San Diego, Houston,
  New York, Chicago.
\<close>

theorem aggregation_order:
  "map avg_city (query_avg climate_data) = [''San Diego'', ''Houston'', ''New York'', ''Chicago'']
   \<and> sorted_wrt (\<lambda>a b. avg_temp a > avg_temp b) (query_avg climate_data)"
  by (simp add: query_avg_rows)

section \<open>The rank of the window function\<close>

lemma rank_peers_fst: "map fst (rank_peers n rk prev rs) = rs"
  by (induction rs arbitrary: n rk prev) (simp_all add: Let_def)

lemma rank_peers_rank:
  assumes "sorted (map (\<lambda>r. - temperature r) rs)"
    and "\<And>p x. prev = Some p \<Longrightarrow> x \<in> set rs \<Longrightarrow> temperature x \<le> p"
    and "(r, k) \<in> set (rank_peers n rk prev rs)"
  shows "k = (if prev = Some (temperature r) then rk
              else n + length (filter (\<lambda>x. temperature r < temperature x) rs))"
  using assms
proof (induction rs arbitrary: n rk prev)
  case Nil
  then show ?case by simp
next
  case (Cons a rs)
  let ?rk = "if prev = Some (temperature a) then rk else n"
  have le_a: "\<And>x. x \<in> set rs \<Longrightarrow> temperature x \<le> temperature a"
    using Cons.prems(1) by auto
  have no_gt_a: "filter (\<lambda>x. temperature a < temperature x) rs = []"
    using le_a by (auto simp: filter_empty_conv not_less)
  from Cons.prems(3) consider (hd) "r = a" "k = ?rk"
    | (tl) "(r, k) \<in> set (rank_peers (Suc n) ?rk (Some (temperature a)) rs)"
    by (auto simp: Let_def split: if_splits)
  then show ?case
  proof cases
    case hd
    then show ?thesis using no_gt_a by simp
  next
    case tl
    have srt: "sorted (map (\<lambda>r. - temperature r) rs)"
      using Cons.prems(1) by simp
    have IH: "k = (if Some (temperature a) = Some (temperature r) then ?rk
                else Suc n + length (filter (\<lambda>x. temperature r < temperature x) rs))"
      using Cons.IH[OF srt _ tl] le_a by blast
    have r_in: "r \<in> set rs"
      using tl rank_peers_fst[of "Suc n" ?rk "Some (temperature a)" rs]
      by (metis fst_conv image_eqI set_map)
    show ?thesis
    proof (cases "temperature r = temperature a")
      case True
      then show ?thesis using IH no_gt_a by simp
    next
      case False
      then have lt: "temperature r < temperature a"
        using le_a[OF r_in] by simp
      have "prev \<noteq> Some (temperature r)"
        using Cons.prems(2)[of "temperature r" a] lt by auto
      then show ?thesis using IH False lt by simp
    qed
  qed
qed

lemma pairs_as_map:
  "(\<And>r k. (r, k) \<in> set xs \<Longrightarrow> k = f r) \<Longrightarrow> xs = map (\<lambda>r. (r, f r)) (map fst xs)"
  by (induction xs) auto

lemma length_filter_sort_key: "length (filter P (sort_key f xs)) = length (filter P xs)"
proof -
  have "mset (filter P (sort_key f xs)) = mset (filter P xs)" by simp
  then show ?thesis by (metis size_mset)
qed

lemma rank_partition_eq:
  "rank_partition p = map (\<lambda>r. (r, Suc (hotter_in p r))) (sort_key (\<lambda>r. - temperature r) p)"
proof -
  let ?s = "sort_key (\<lambda>r. - temperature r) p"
  have "\<And>r k. (r, k) \<in> set (rank_peers 1 0 None ?s) \<Longrightarrow> k = Suc (hotter_in p r)"
  proof -
    fix r k assume "(r, k) \<in> set (rank_peers 1 0 None ?s)"
    from rank_peers_rank[OF _ _ this] have "k = 1 + length (filter (\<lambda>x. temperature r < temperature x) ?s)"
      by simp
    then show "k = Suc (hotter_in p r)"
      by (simp add: hotter_in_def length_filter_sort_key)
  qed
  from pairs_as_map[of "rank_peers 1 0 None ?s" "\<lambda>r. Suc (hotter_in p r)", OF this]
  show ?thesis by (simp add: rank_partition_def rank_peers_fst)
qed

lemma mset_rank_partition:
  "image_mset g (mset (rank_partition p)) = image_mset (\<lambda>r. g (r, Suc (hotter_in p r))) (mset p)"
proof -
  have "mset (rank_partition p) = image_mset (\<lambda>r. (r, Suc (hotter_in p r))) (mset p)"
    by (simp add: rank_partition_eq)
  then show ?thesis by (simp add: multiset.map_comp comp_def)
qed

lemma hotter_in_partition:
  "reading_date r = d \<Longrightarrow>
   Suc (hotter_in (filter (\<lambda>x. reading_date x = d) rs) r) = rank_spec rs r"
  by (simp add: hotter_in_def rank_spec_def conj_commute)

lemma sum_list_filter_mset_keys:
  "distinct ds \<Longrightarrow>
   (\<Sum>d\<leftarrow>ds. filter_mset (\<lambda>r. k r = d) M) = filter_mset (\<lambda>r. k r \<in> set ds) M"
proof (induction ds)
  case Nil
  then show ?case by simp
next
  case (Cons d ds)
  have "filter_mset (\<lambda>r. k r = d) M + filter_mset (\<lambda>r. k r \<in> set ds) M
        = filter_mset (\<lambda>r. k r \<in> set (d # ds)) M"
    using Cons.prems by (intro multiset_eqI) auto
  with Cons show ?case by simp
qed

lemma sum_list_image_mset:
  "(\<Sum>d\<leftarrow>ds. image_mset f (g d)) = image_mset f (\<Sum>d\<leftarrow>ds. g d)"
  by (induction ds) simp_all

lemma mset_ranked_partition:
  "image_mset select_rank (mset (rank_partition (filter (\<lambda>r. reading_date r = d) rs)))
   = image_mset (ranked_row rs) (filter_mset (\<lambda>r. reading_date r = d) (mset rs))"
proof -
  have "image_mset (\<lambda>r. select_rank (r, Suc (hotter_in (filter (\<lambda>r. reading_date r = d) rs) r)))
          (filter_mset (\<lambda>r. reading_date r = d) (mset rs))
        = image_mset (ranked_row rs) (filter_mset (\<lambda>r. reading_date r = d) (mset rs))"
    by (rule image_mset_cong) (simp add: select_rank_def ranked_row_def hotter_in_partition)
  then show ?thesis by (simp add: mset_rank_partition)
qed

lemma mset_ranked_temps: "mset (ranked_temps rs) = image_mset (ranked_row rs) (mset rs)"
proof -
  let ?ds = "sort (remdups (map reading_date rs))"
  have "mset (ranked_temps rs)
        = (\<Sum>d\<leftarrow>?ds. image_mset (ranked_row rs) (filter_mset (\<lambda>r. reading_date r = d) (mset rs)))"
    by (simp add: ranked_temps_def partition_by_date_def mset_concat comp_def
        mset_ranked_partition)
  also have "\<dots> = image_mset (ranked_row rs) (\<Sum>d\<leftarrow>?ds. filter_mset (\<lambda>r. reading_date r = d) (mset rs))"
    by (rule sum_list_image_mset)
  also have "(\<Sum>d\<leftarrow>?ds. filter_mset (\<lambda>r. reading_date r = d) (mset rs))
             = filter_mset (\<lambda>r. reading_date r \<in> set ?ds) (mset rs)"
    by (rule sum_list_filter_mset_keys) simp
  also have "\<dots> = mset rs"
    by (simp add: filter_mset_eq_conv)
  finally show ?thesis .
qed


lemma insort_key_agree:
  "f a = g a \<Longrightarrow> (\<And>x. x \<in> set ys \<Longrightarrow> f x = g x) \<Longrightarrow> insort_key f a ys = insort_key g a ys"
  by (induction ys) simp_all

lemma sort_key_agree:
  "(\<And>x. x \<in> set xs \<Longrightarrow> f x = g x) \<Longrightarrow> sort_key f xs = sort_key g xs"
proof (induction xs)
  case Nil
  then show ?case by simp
next
  case (Cons a xs)
  have "sort_key f xs = sort_key g xs" using Cons by simp
  moreover have "insort_key f a (sort_key g xs) = insort_key g a (sort_key g xs)"
    using Cons.prems by (intro insort_key_agree) simp_all
  ultimately show ?case by simp
qed

lemma insort_key_pair_const:
  "insort_key (\<lambda>x. (f x, c :: nat)) a xs = insort_key f a xs"
  by (induction xs) (auto simp: less_eq_prod_def)

lemma sort_key_pair_const: "sort_key (\<lambda>x. (f x, c :: nat)) xs = sort_key f xs"
  by (induction xs) (simp_all add: insort_key_pair_const)

lemma cte_refines: "query_cte rs = cte_spec rs"
proof -
  let ?top = "filter (\<lambda>x. temp_rank x = 1) (ranked_temps rs)"
  have "filter (\<lambda>x. temp_rank x = 1) (query_window rs)
        = sort_key (\<lambda>x. (rk_date x, temp_rank x)) ?top"
    by (simp add: query_window_def filter_sort)
  also have "\<dots> = sort_key (\<lambda>x. (rk_date x, 1 :: nat)) ?top"
    by (rule sort_key_agree) simp
  also have "\<dots> = sort_key rk_date ?top"
    by (rule sort_key_pair_const)
  finally have "cte_spec rs = sort_key rk_date (sort_key rk_date ?top)"
    by (simp add: cte_spec_def)
  also have "\<dots> = sort_key rk_date ?top"
    by (rule sort_key_id_if_sorted) simp
  finally show ?thesis by (simp add: query_cte_def)
qed

section \<open>The ranking report on the twelve records\<close>

text \<open>
  C2, as the specification states it, fails: the records of rank 1 are not Houston,
  Houston and San Diego.
\<close>

theorem hottest_per_date_counterexample:
  "map (\<lambda>x. (rk_date x, rk_city x)) (filter (\<lambda>x. temp_rank x = 1) (query_window climate_data))
   \<noteq> [(''2025-01-01'', ''Houston''), (''2025-01-02'', ''Houston''), (''2025-01-03'', ''San Diego'')]"
  by (simp add: query_window_rows ranked_temps_rows)

text \<open>
  C2, amended. On the twelve records the ranking report gives rank 1 to exactly one
  record of each date, and that record is San Diego on each of the three dates.
\<close>

theorem hottest_per_date:
  "map (\<lambda>x. (rk_date x, rk_city x)) (filter (\<lambda>x. temp_rank x = 1) (query_window climate_data))
   = [(''2025-01-01'', ''San Diego''), (''2025-01-02'', ''San Diego''), (''2025-01-03'', ''San Diego'')]"
  by (simp add: query_window_rows ranked_temps_rows)

section \<open>The ranking report and the CTE on any table\<close>

text \<open>
  C4. For any table, the ranking report holds one row for each record of the table, with
  the record's city, date and temperature and with a rank of one plus the number of
  records of the same date whose temperature is strictly greater; so records tied on
  temperature within a date share a rank and the next rank skips the tied count (two
  records tied for hottest get rank 1 and the third gets rank 3). The rows of the report
  are ordered by date, then by rank. On the twelve records the ranks of each of the three
  dates are 1, 2, 3, 4, each once.
\<close>

theorem rank_with_gaps:
  "mset (query_window rs) = mset (map (ranked_row rs) rs)
   \<and> sorted (map (\<lambda>x. (rk_date x, temp_rank x)) (query_window rs))
   \<and> map temp_rank (query_window
         [\<lparr>rid = 1, city = ''A'', reading_date = ''2025-01-01'', temperature = 20, humidity = 1\<rparr>,
          \<lparr>rid = 2, city = ''B'', reading_date = ''2025-01-01'', temperature = 10, humidity = 1\<rparr>,
          \<lparr>rid = 3, city = ''C'', reading_date = ''2025-01-01'', temperature = 20, humidity = 1\<rparr>])
       = [1, 1, 3]
   \<and> map (\<lambda>d. map temp_rank (filter (\<lambda>x. rk_date x = d) (query_window climate_data)))
         [''2025-01-01'', ''2025-01-02'', ''2025-01-03'']
       = [[1, 2, 3, 4], [1, 2, 3, 4], [1, 2, 3, 4]]"
proof -
  have "mset (query_window rs) = mset (map (ranked_row rs) rs)"
    by (simp add: query_window_def mset_ranked_temps)
  moreover have "sorted (map (\<lambda>x. (rk_date x, temp_rank x)) (query_window rs))"
    by (simp add: query_window_def)
  moreover have "map temp_rank (query_window
         [\<lparr>rid = 1, city = ''A'', reading_date = ''2025-01-01'', temperature = 20, humidity = 1\<rparr>,
          \<lparr>rid = 2, city = ''B'', reading_date = ''2025-01-01'', temperature = 10, humidity = 1\<rparr>,
          \<lparr>rid = 3, city = ''C'', reading_date = ''2025-01-01'', temperature = 20, humidity = 1\<rparr>])
       = [1, 1, 3]"
    by (simp add: query_window_def ranked_temps_def partition_by_date_def rank_partition_def
        select_rank_def)
  moreover have "map (\<lambda>d. map temp_rank (filter (\<lambda>x. rk_date x = d) (query_window climate_data)))
         [''2025-01-01'', ''2025-01-02'', ''2025-01-03'']
       = [[1, 2, 3, 4], [1, 2, 3, 4], [1, 2, 3, 4]]"
    by (simp add: query_window_rows ranked_temps_rows)
  ultimately show ?thesis by blast
qed

text \<open>
  C5. For any table, the output of the CTE query is the ranking report restricted to the
  rows of rank 1 and ordered by date; its rows are rows of the ranking report, each of
  rank 1, in ascending order of date. On the twelve records it is a strict subset of the
  ranking report and holds exactly one row for each distinct date.
\<close>

theorem cte_is_filtered_ranking:
  "query_cte rs = cte_spec rs
   \<and> set (query_cte rs) \<subseteq> set (query_window rs)
   \<and> map temp_rank (query_cte rs) = replicate (length (query_cte rs)) 1
   \<and> sorted (map rk_date (query_cte rs))
   \<and> set (query_cte climate_data) \<subset> set (query_window climate_data)
   \<and> map rk_date (query_cte climate_data) = sort (remdups (map reading_date climate_data))"
proof -
  have "map temp_rank (filter (\<lambda>x. temp_rank x = 1) xs)
        = replicate (length (filter (\<lambda>x. temp_rank x = 1) xs)) 1" for xs :: "rank_row list"
    by (induction xs) simp_all
  then have ones: "map temp_rank (query_cte rs) = replicate (length (query_cte rs)) 1"
    by (metis cte_spec_def cte_refines filter_sort)
  have sub: "set (query_cte rs) \<subseteq> set (query_window rs)"
    by (auto simp: query_cte_def query_window_def)
  have srt: "sorted (map rk_date (query_cte rs))"
    by (simp add: query_cte_def)
  have strict: "set (query_cte climate_data) \<subset> set (query_window climate_data)"
  proof -
    let ?h = "\<lparr>rk_city = ''Houston'', rk_date = ''2025-01-01'', rk_temperature = 10.2, temp_rank = 2\<rparr>"
    have "?h \<in> set (query_window climate_data)"
      by (simp add: query_window_rows ranked_temps_rows)
    moreover have "?h \<notin> set (query_cte climate_data)"
      by (simp add: query_cte_rows)
    moreover have "set (query_cte climate_data) \<subseteq> set (query_window climate_data)"
      by (auto simp: query_cte_def query_window_def)
    ultimately show ?thesis by blast
  qed
  have dates: "map rk_date (query_cte climate_data) = sort (remdups (map reading_date climate_data))"
  proof -
    have "sort (remdups (map reading_date climate_data)) = [''2025-01-01'', ''2025-01-02'', ''2025-01-03'']"
      by (simp add: climate_data_rows)
    then show ?thesis by (simp add: query_cte_rows)
  qed
  from cte_refines ones sub srt strict dates show ?thesis by blast
qed

section \<open>The correlation matrix of the loaded table\<close>

lemma temps_eq: "temps = [-5.2, -2.1, 0.5, -7.0, -5.5, -3.2, 10.2, 12.1, 15.0, 15.2, 16.5, 18.0]"
  by (simp add: temps_def climate_data_rows)

lemma hums_eq: "hums = [35.0, 40.0, 42.0, 50.0, 55.0, 48.0, 70.0, 68.0, 65.0, 55.0, 52.0, 50.0]"
  by (simp add: hums_def climate_data_rows)

lemma welford_tt: "welford_pass (zip temps temps) = (12, 43/8, 43/8, 430897/400, 430897/400, 430897/400)"
  by (simp add: temps_eq welford_pass_def Let_def)

lemma welford_hh: "welford_pass (zip hums hums) = (12, 105/2, 105/2, 1321, 1321, 1321)"
  by (simp add: hums_eq welford_pass_def Let_def)

lemma welford_ht: "welford_pass (zip hums temps) = (12, 105/2, 43/8, 1321, 430897/400, 13369/20)"
  by (simp add: hums_eq temps_eq welford_pass_def Let_def)

lemma sqrt_square: "0 \<le> x \<Longrightarrow> sqrt (x * x) = x"
  by simp

lemma nancorr_tt: "nancorr temps temps = Some 1"
  using sqrt_square[of "430897/400"] by (simp add: nancorr_def welford_tt)

lemma nancorr_hh: "nancorr hums hums = Some 1"
  using sqrt_square[of 1321] by (simp add: nancorr_def welford_hh)

lemma nancorr_ht: "nancorr hums temps = Some ((13369/20) / sqrt (1321 * (430897/400)))"
  by (simp add: nancorr_def welford_ht)

lemma cov_tt: "sample_cov temps temps = (430897/400) / 11"
  by (simp add: sample_cov_def mean_def temps_eq)

lemma cov_hh: "sample_cov hums hums = 1321 / 11"
  by (simp add: sample_cov_def mean_def hums_eq)

lemma cov_th: "sample_cov temps hums = (13369/20) / 11"
  by (simp add: sample_cov_def mean_def hums_eq temps_eq)

lemma pearson_scale:
  fixes a b c n :: real
  assumes "0 < n"
  shows "(c / n) / (sqrt (a / n) * sqrt (b / n)) = c / sqrt (a * b)"
proof -
  have "sqrt (a / n) * sqrt (b / n) = sqrt (a * b) / n"
    using assms by (simp add: real_sqrt_divide real_sqrt_mult field_simps)
  then show ?thesis using assms by simp
qed

lemma pearson_th: "pearson temps hums = (13369/20) / sqrt (1321 * (430897/400))"
proof -
  have "pearson temps hums = ((13369/20) / 11) / (sqrt ((430897/400) / 11) * sqrt (1321 / 11))"
    by (simp only: pearson_def sample_sd_def cov_tt cov_hh cov_th)
  also have "\<dots> = (13369/20) / sqrt ((430897/400) * 1321)"
    by (rule pearson_scale) simp
  finally show ?thesis by (simp add: mult.commute)
qed

lemma pearson_pos: "0 < pearson temps hums"
  unfolding pearson_th by simp

lemma pearson_le_1: "pearson temps hums \<le> 1"
proof -
  have "(13369/20 :: real) \<le> sqrt (1321 * (430897/400))"
    by (rule real_le_rsqrt) (simp add: power2_eq_square)
  then show ?thesis unfolding pearson_th by simp
qed

text \<open>
  C6, as the specification states it, fails: on the twelve records the off-diagonal
  entry of the matrix is Pearson's coefficient of temperature and humidity, and it is not
  negative.
\<close>

theorem correlation_sign_counterexample:
  "corr_th (corr climate_data) = Some (pearson temps hums) \<and> \<not> pearson temps hums < 0"
  using pearson_pos
  by (simp add: corr_def Let_def nancorr_ht pearson_th flip: temps_def hums_def)

text \<open>
  C6, amended. The matrix is symmetric (for any table); on the twelve records both
  diagonal entries are 1, both off-diagonal entries are Pearson's coefficient of the
  temperature and humidity series (sample covariance over the product of the sample
  standard deviations), its magnitude is at most 1, and it is strictly positive.
\<close>

theorem correlation_matrix:
  "corr_th (corr rs) = corr_ht (corr rs)
   \<and> corr_tt (corr climate_data) = Some 1
   \<and> corr_hh (corr climate_data) = Some 1
   \<and> corr_th (corr climate_data) = Some (pearson temps hums)
   \<and> corr_ht (corr climate_data) = Some (pearson temps hums)
   \<and> \<bar>pearson temps hums\<bar> \<le> 1
   \<and> 0 < pearson temps hums"
proof -
  have "corr_th (corr rs) = corr_ht (corr rs)"
    by (simp add: corr_def Let_def)
  moreover have "corr climate_data
     = \<lparr>corr_tt = Some 1, corr_th = Some (pearson temps hums),
        corr_ht = Some (pearson temps hums), corr_hh = Some 1\<rparr>"
    by (simp add: corr_def Let_def nancorr_ht nancorr_tt nancorr_hh pearson_th
        flip: temps_def hums_def)
  moreover have "\<bar>pearson temps hums\<bar> \<le> 1"
    using pearson_pos pearson_le_1 by simp
  ultimately show ?thesis using pearson_pos by simp
qed

section \<open>The run of main\<close>

lemma main_run:
  "main =
     (None,
      \<lparr>conn = \<lparr>tbl = None, autoinc = 12, in_transaction = False, is_open = False\<rparr>,
       stdout =
         [[Str ''=== Average Temperature & Humidity by City ===''],
          [Df (AvgFrame (query_avg climate_data)), Str newline],
          [Str ''=== Window Function: Temperature Rank per Date ===''],
          [Df (RankFrame (query_window climate_data)), Str newline],
          [Str ''=== CTE: Hottest City per Date ===''],
          [Df (RankFrame (query_cte climate_data)), Str newline],
          [Str ''=== Full climate_data Table in Pandas ===''],
          [Df (TableFrame (head climate_data)), Str newline],
          [Str ''=== Correlation Matrix between Temperature & Humidity ===''],
          [Df (CorrFrame (corr climate_data))]]\<rparr>)"
  by (simp add: main_def main_in_def call_def no_fault_def and_then_def populate_def populate_conn
      run_basic_analytics_def run_advanced_analytics_def pandas_steps_def close_conn_def close_def
      read_sql_query_def py_print_def query_all_def Let_def)

lemma connect_open: "is_open connect"
  by (simp add: connect_def)

text \<open>
  C7, as the specification states it, fails: the run prints five header lines, not four;
  the last call, which prints the correlation matrix, leaves no blank line behind it; and
  no call prints the frame of all twelve records.
\<close>

theorem report_sections_counterexample:
  "length (filter is_header (stdout (snd main))) \<noteq> 4
   \<and> \<not> blank_line_after (last (stdout (snd main)))
   \<and> Df (TableFrame climate_data) \<notin> set (concat (stdout (snd main)))"
proof -
  have "head climate_data \<noteq> climate_data"
    by (simp add: head_def climate_data_rows)
  then show ?thesis
    by (simp add: main_run is_header_def blank_line_after_def)
qed

text \<open>
  C7, amended. A run ends without an exception and prints five labelled sections in a
  fixed order: the average-by-city table, the rank-per-date table, the
  hottest-city-per-date table, a section for the full table and the correlation matrix.
  Each section is a header line followed by one frame; the first four frames are
  followed by a blank line, and the correlation matrix, printed last, is not.
\<close>

theorem report_sections:
  "fst main = None
   \<and> length (stdout (snd main)) = 10
   \<and> take 7 (stdout (snd main)) =
       [[Str ''=== Average Temperature & Humidity by City ===''],
        [Df (AvgFrame (query_avg climate_data)), Str newline],
        [Str ''=== Window Function: Temperature Rank per Date ===''],
        [Df (RankFrame (query_window climate_data)), Str newline],
        [Str ''=== CTE: Hottest City per Date ===''],
        [Df (RankFrame (query_cte climate_data)), Str newline],
        [Str ''=== Full climate_data Table in Pandas ==='']]
   \<and> (\<exists>rs. stdout (snd main) ! 7 = [Df (TableFrame rs), Str newline])
   \<and> drop 8 (stdout (snd main)) =
       [[Str ''=== Correlation Matrix between Temperature & Humidity ===''],
        [Df (CorrFrame (corr climate_data))]]
   \<and> map is_header (stdout (snd main))
       = [True, False, True, False, True, False, True, False, True, False]
   \<and> map blank_line_after (filter is_section_body (stdout (snd main)))
       = [True, True, True, True, False]"
  by (simp add: main_run is_header_def is_section_body_def blank_line_after_def newline_def)

section \<open>The table during the run\<close>

text \<open>
  C8. The loader on the fresh connection returns normally and leaves exactly the twelve
  records in the table: the four cities times the three dates, each pair once. City and
  date are present in each record, and an insert with a missing city or a missing date
  is refused. The three analytics queries and the full-table read (with the prints and
  the correlation) leave the connection, and so the table, as they found it, whatever
  state they start from.
\<close>

theorem table_fixed_after_load:
  "create_and_populate_db connect =
     (None, \<lparr>tbl = Some climate_data, autoinc = 12, in_transaction = False, is_open = True\<rparr>)
   \<and> length climate_data = 12
   \<and> map (\<lambda>r. (city r, reading_date r)) climate_data
       = List.product [''New York'', ''Chicago'', ''Houston'', ''San Diego'']
           [''2025-01-01'', ''2025-01-02'', ''2025-01-03'']
   \<and> distinct (map (\<lambda>r. (city r, reading_date r)) climate_data)
   \<and> fst (insert_row \<lparr>tbl = Some rs, autoinc = n, in_transaction = b, is_open = True\<rparr> (None, d, t, h))
       = Some IntegrityError
   \<and> fst (insert_row \<lparr>tbl = Some rs, autoinc = n, in_transaction = b, is_open = True\<rparr> (c, None, t, h))
       = Some IntegrityError
   \<and> conn (snd (run_basic_analytics w)) = conn w
   \<and> conn (snd (run_advanced_analytics w)) = conn w
   \<and> conn (snd (pandas_steps w)) = conn w"
proof -
  have pairs: "map (\<lambda>r. (city r, reading_date r)) climate_data
       = List.product [''New York'', ''Chicago'', ''Houston'', ''San Diego'']
           [''2025-01-01'', ''2025-01-02'', ''2025-01-03'']"
    by (simp add: climate_data_rows)
  have dist: "distinct (map (\<lambda>r. (city r, reading_date r)) climate_data)"
    unfolding pairs by (simp add: distinct_product)
  have len: "length climate_data = 12"
    by (simp add: climate_data_rows)
  have null_date: "fst (insert_row \<lparr>tbl = Some rs, autoinc = n, in_transaction = b, is_open = True\<rparr> (c, None, t, h))
       = Some IntegrityError"
    by (cases c) simp_all
  have basic: "conn (snd (run_basic_analytics w)) = conn w"
    by (simp add: run_basic_analytics_def py_print_def split: sum.splits)
  have adv: "conn (snd (run_advanced_analytics w)) = conn w"
    by (simp add: run_advanced_analytics_def py_print_def Let_def split: sum.splits)
  have pan: "conn (snd (pandas_steps w)) = conn w"
    by (simp add: pandas_steps_def py_print_def split: sum.splits)
  from populate_conn pairs dist len null_date basic adv pan show ?thesis by simp
qed

section \<open>Closing the connection\<close>

text \<open>
  C9, as the specification states it, fails: when the first analytics step raises, main
  ends with that exception and the connection is still open; the close is not reached.
\<close>

theorem close_not_reached_counterexample:
  "fst (main_in (fault_at Basic EngineError)) = Some EngineError
   \<and> is_open (conn (snd (main_in (fault_at Basic EngineError))))"
  by (simp add: main_in_def call_def fault_at_def and_then_def populate_def populate_conn)

text \<open>
  C9, amended. The connection is acquired at the start of main and closed by the last
  statement of main. The close is reached when no statement raises, and then the run
  ends normally with the connection closed. When any statement raises, main ends with an
  exception and the connection has not been closed by it.
\<close>

theorem close_only_on_success:
  "(env Populate = None \<and> env Basic = None \<and> env Advanced = None \<and> env Pandas = None
      \<and> env Close = None
     \<longrightarrow> fst (main_in env) = None \<and> \<not> is_open (conn (snd (main_in env))))
   \<and> (env Populate \<noteq> None \<or> env Basic \<noteq> None \<or> env Advanced \<noteq> None \<or> env Pandas \<noteq> None
      \<or> env Close \<noteq> None
     \<longrightarrow> fst (main_in env) \<noteq> None \<and> is_open (conn (snd (main_in env))))"
  by (auto simp add: main_in_def call_def and_then_def populate_def populate_conn
      run_basic_analytics_def run_advanced_analytics_def pandas_steps_def close_conn_def close_def
      read_sql_query_def py_print_def Let_def connect_open split: option.splits)

text \<open>
  The two cases of the amended C9 at concrete runs: a run in which the first analytics
  step raises, and the run in which nothing raises.
\<close>

theorem close_only_on_success_witness:
  "fault_at Basic EngineError Basic \<noteq> None
   \<and> fst (main_in (fault_at Basic EngineError)) \<noteq> None
   \<and> is_open (conn (snd (main_in (fault_at Basic EngineError))))
   \<and> no_fault Populate = None \<and> no_fault Basic = None \<and> no_fault Advanced = None
   \<and> no_fault Pandas = None \<and> no_fault Close = None
   \<and> fst (main_in no_fault) = None
   \<and> \<not> is_open (conn (snd (main_in no_fault)))"
  using close_only_on_success[of "fault_at Basic EngineError"] close_only_on_success[of no_fault]
  by (simp add: fault_at_def no_fault_def)

section \<open>Calling the loader twice\<close>

text \<open>
  C10. A second call of the loader on the same connection returns normally and inserts
  the twelve literal records again under the ids 13 to 24, so that the table holds
  twenty-four rows: the loader followed by itself is not the loader. On any open
  connection that has the table, the loader appends the twelve records.
\<close>

theorem loader_not_idempotent:
  "create_and_populate_db (snd (create_and_populate_db connect)) =
     (None, \<lparr>tbl = Some (climate_data @ new_rows 12), autoinc = 24, in_transaction = False,
             is_open = True\<rparr>)
   \<and> length (climate_data @ new_rows 12) = 24
   \<and> map (\<lambda>r. (city r, reading_date r, temperature r, humidity r)) (new_rows 12)
       = map (\<lambda>r. (city r, reading_date r, temperature r, humidity r)) climate_data
   \<and> map rid (climate_data @ new_rows 12) = [1..<25]
   \<and> and_then (create_and_populate_db connect) create_and_populate_db
       \<noteq> create_and_populate_db connect
   \<and> create_and_populate_db \<lparr>tbl = Some rs, autoinc = n, in_transaction = b, is_open = True\<rparr> =
       (None, \<lparr>tbl = Some (rs @ new_rows n), autoinc = n + 12, in_transaction = False,
               is_open = True\<rparr>)"
proof -
  have twice: "create_and_populate_db (snd (create_and_populate_db connect)) =
     (None, \<lparr>tbl = Some (climate_data @ new_rows 12), autoinc = 24, in_transaction = False,
             is_open = True\<rparr>)"
    by (simp add: populate_conn populate_existing)
  have len: "length (climate_data @ new_rows 12) = 24"
    by (simp add: new_rows_def) (simp add: climate_data_rows)
  have same: "map (\<lambda>r. (city r, reading_date r, temperature r, humidity r)) (new_rows 12)
       = map (\<lambda>r. (city r, reading_date r, temperature r, humidity r)) climate_data"
    by (simp add: new_rows_def comp_def)
  have ids: "map rid (climate_data @ new_rows 12) = [1..<25]"
    by (simp add: new_rows_def comp_def) (simp add: climate_data_rows upt_rec)
  have neq: "and_then (create_and_populate_db connect) create_and_populate_db
       \<noteq> create_and_populate_db connect"
    by (simp add: populate_conn and_then_def populate_existing)
  from twice len same ids neq populate_existing show ?thesis by simp
qed

end
